theory Spec2Isabelle
  imports Complex_Main
begin

section \<open>Python values the adapter raises or compares\<close>

text \<open>
  The exceptions the modelled code can raise. A function of the source that can raise
  returns \<open>py_error + 'a\<close>, with \<open>Inl\<close> for the exception.
\<close>

datatype py_error =
  ZeroDivisionError | TypeError | UnboundLocalError | ValueError | OverflowError

section \<open>helpers.py\<close>

text \<open>
  \<^verbatim>\<open>class EulerRotationOrder(enum.IntEnum): XY = 0; YX = 1\<close>
\<close>

datatype EulerRotationOrder = XY | YX

fun enum_value :: "EulerRotationOrder \<Rightarrow> int" where
  "enum_value XY = 0"
| "enum_value YX = 1"

text \<open>
  Python does not enforce the annotation of \<open>rotation_order\<close>: the argument is any
  value. The values modelled are a member of the enumeration, an integer (\<open>True\<close> and
  \<open>False\<close> are the integers 1 and 0), a float, \<open>None\<close> and a string.
\<close>

datatype py_arg =
    EnumArg EulerRotationOrder
  | IntArg int
  | FloatArg real
  | NoneArg
  | StrArg string

text \<open>
  \<open>rotation_order == EulerRotationOrder.M\<close>: a member of an \<open>IntEnum\<close> is an integer and
  compares as one, so it equals itself, the integer of its value and the float of its
  value, and nothing else.
\<close>

fun py_eq_member :: "py_arg \<Rightarrow> EulerRotationOrder \<Rightarrow> bool" where
  "py_eq_member (EnumArg e) m = (e = m)"
| "py_eq_member (IntArg i) m = (i = enum_value m)"
| "py_eq_member (FloatArg r) m = (r = of_int (enum_value m))"
| "py_eq_member NoneArg m = False"
| "py_eq_member (StrArg s) m = False"

text \<open>
  The numpy functions \<open>vector_to_angles\<close> calls are not code of this repository, and the
  numbers are floating-point: they are parameters of the model. The number type \<open>'a\<close>
  stands for the floats the function is called with (Python floats, or numpy floats as in
  the call of \<open>_getIOHubEventObject\<close>); it has \<open>+\<close> and unary \<open>-\<close> as operations only, and no
  law of arithmetic is assumed. On floats \<open>np.arctan2\<close> and \<open>np.sqrt\<close> return a float for
  every argument (\<open>nan\<close> where the mathematical function has no value).
\<close>

record 'a numpy =
  arctan2 :: "'a \<Rightarrow> 'a \<Rightarrow> 'a"
  sqrt_np :: "'a \<Rightarrow> 'a"
  nan :: 'a

text \<open>
  \<open>x ** 2\<close> is Python's operator on the type of the argument, and it can raise: the
  argument \<open>pow2\<close> gives, for a number, its square or the exception. \<open>+\<close> and unary \<open>-\<close> of
  floats do not raise. The assignments run in the order of the source, so the first
  square that raises ends the call; with an order that is neither member no arithmetic is
  evaluated.
\<close>

definition vector_to_angles ::
  "('a \<Rightarrow> py_error + 'a) \<Rightarrow> 'a numpy \<Rightarrow> 'a::{plus,uminus} \<Rightarrow> 'a \<Rightarrow> 'a \<Rightarrow> py_arg
     \<Rightarrow> py_error + 'a \<times> 'a" where
  "vector_to_angles pow2 np xpos ypos zpos rotation_order =
     (if py_eq_member rotation_order YX then
        (let azimuth = arctan2 np xpos (- zpos)
         in case pow2 xpos of
              Inl e \<Rightarrow> Inl e
            | Inr x2 \<Rightarrow>
                (case pow2 zpos of
                   Inl e \<Rightarrow> Inl e
                 | Inr z2 \<Rightarrow> Inr (azimuth, arctan2 np ypos (sqrt_np np (x2 + z2)))))
      else if py_eq_member rotation_order XY then
        (case pow2 ypos of
           Inl e \<Rightarrow> Inl e
         | Inr y2 \<Rightarrow>
             (case pow2 zpos of
                Inl e \<Rightarrow> Inl e
              | Inr z2 \<Rightarrow>
                  Inr (arctan2 np xpos (sqrt_np np (y2 + z2)), arctan2 np ypos (- zpos))))
      else Inr (nan np, nan np))"

text \<open>
  \<open>x ** 2\<close> on a finite Python float, the float given by the real it denotes: the call
  raises \<open>OverflowError\<close> when the square rounds beyond the largest float, which is from
  \<open>2 ^ 1024 - 2 ^ 970\<close> on (half a unit in the last place above the largest float, where
  rounding to nearest goes to infinity). Below that the result is the square; its rounding
  to a float is left out.
\<close>

definition float_pow2 :: "real \<Rightarrow> py_error + real" where
  "float_pow2 x = (if 2 ^ 1024 - 2 ^ 970 \<le> x ^ 2 then Inl OverflowError else Inr (x ^ 2))"

section \<open>eyetracker.py: coordinate conversion\<close>

text \<open>
  \<open>getCoordBounds()\<close> of the display device: \<open>(left, top, right, bottom)\<close>. The display
  device of the tracker is \<open>None\<close> or has such bounds.
\<close>

type_synonym bounds = "real \<times> real \<times> real \<times> real"

definition eyeTrackerToDisplayCoords :: "bounds option \<Rightarrow> real \<times> real \<Rightarrow> real \<times> real" where
  "eyeTrackerToDisplayCoords display_device eyetracker_point =
     (case display_device of
        None \<Rightarrow> (0, 0)
      | Some (b_left, b_top, b_right, b_bottom) \<Rightarrow>
          (let (gaze_x, gaze_y) = eyetracker_point;
               w = b_right - b_left;
               h = b_top - b_bottom
           in (w * (gaze_x - 0.5), h * (0.5 - gaze_y))))"

text \<open>
  \<open>return (display_x + 0.5) / w, 0.5 - (display_y / h)\<close>: a division of Python numbers
  by zero raises.
\<close>

definition displayToEyeTrackerCoords ::
  "bounds option \<Rightarrow> real \<Rightarrow> real \<Rightarrow> py_error + real \<times> real" where
  "displayToEyeTrackerCoords display_device display_x display_y =
     (case display_device of
        None \<Rightarrow> Inr (0, 0)
      | Some (b_left, b_top, b_right, b_bottom) \<Rightarrow>
          (let w = b_right - b_left;
               h = b_top - b_bottom
           in if w = 0 \<or> h = 0 then Inl ZeroDivisionError
              else Inr ((display_x + 0.5) / w, 0.5 - (display_y / h))))"

text \<open>
  The round trip of a display point: to tracker coordinates and back.
\<close>

definition display_round_trip :: "bounds option \<Rightarrow> real \<Rightarrow> real \<Rightarrow> py_error + real \<times> real" where
  "display_round_trip display_device display_x display_y =
     (case displayToEyeTrackerCoords display_device display_x display_y of
        Inl e \<Rightarrow> Inl e
      | Inr p \<Rightarrow> Inr (eyeTrackerToDisplayCoords display_device p))"

section \<open>eyetracker.py: the vendor API and the device state\<close>

text \<open>
  The vendor SDK (\<open>adhawkapi\<close>) is not code of this repository. Its constants are
  constructors here, and every request the adapter sends to \<open>self._frontend_api\<close> is
  appended to a log, so that a theorem can say which requests a method issued.
\<close>

datatype packet_type = EXTENDED_GAZE | PER_EYE_GAZE | GAZE_IN_SCREEN | PUPIL_DIAMETER | EVENTS

datatype event_control_bit = BLINK_BIT | PRODECURE_START_END

datatype ack_code = SUCCESS | Ack_error nat

datatype stream_handler =
    Handle_gaze_data
  | Handle_binocular_gaze_data
  | Handle_gaze_in_screen_data
  | Handle_pupil_diameter
  | Handle_events
  | Calibration_handleEvents

datatype api_call =
    Register_stream_handler packet_type stream_handler
  | Start
  | Shutdown
  | Set_stream_control packet_type real
  | Set_event_control event_control_bit nat
  | Start_camera_capture
  | Stop_camera_capture
  | Start_screen_tracking
  | Stop_screen_tracking
  | Register_screen_board real real "int list" "real list list"
  | Autotune_gui nat
  | Start_calibration_gui nat nat bool

text \<open>
  A row of \<open>self._aruco_info\<close>, the marker table with the columns \<open>generate_markers\<close>
  adds. \<open>MARKER_INFO_DEFAULT\<close> is the table with no row.
\<close>

record marker =
  aruco_id :: int
  pos_x_cm_corner :: real
  pos_y_cm_corner :: real
  size_cm :: real

definition MARKER_INFO_DEFAULT :: "marker list" where
  "MARKER_INFO_DEFAULT = []"

definition MARKERS_NOT_DEFINED_MSG :: string where
  "MARKERS_NOT_DEFINED_MSG = ''Markers not defined for screen tracking.''"

text \<open>
  The tuple a handler passes to \<open>_handleNativeEvent\<close>: the event constant, then the
  numbers in the order of the tuple.
\<close>

datatype event_constant = BINOCULAR_EYE_SAMPLE | BLINK_END

type_synonym native_event = "event_constant \<times> real list"

text \<open>
  A field of the record \<open>_getIOHubEventObject\<close> builds: a number or one of the host's
  constants (\<open>EyeTrackerConstants\<close>, \<open>EventConstants\<close>).
\<close>

datatype field =
    Num real
  | UNDEFINED
  | BINOCULAR_AVERAGED
  | PUPIL_DIAMETER_TYPE
  | Event_type event_constant

record eyetracker =
  aruco_info :: "marker list"
  screen_size :: "(real \<times> real) option"
  max_wait_time :: real
  connected :: bool
  camera_started :: bool
  latest_sample_timestamp :: real
  latest_gaze_in_screen :: "real list"
  latest_binocular_gaze_data :: "real list"
  latest_pupil_diameter_data :: "real list"
  sampling_rate :: real
  screen_tracking :: bool
  latest_sample :: "field list option"
  latest_gaze_position :: "real list option"
  display_device :: "bounds option"
  is_reporting_events :: bool
  native_event_buffer :: "native_event list"
  api_calls :: "api_call list"
  stderr :: "string list"

text \<open>
  The fields the modelled methods use, after the assignments of \<open>__init__\<close> and before
  its call of \<open>setConnectionState(True)\<close>. The runtime settings and the display device
  come from the host's configuration; the reporting flag and the event buffer belong to
  the host's base class, and a new device does not report.
\<close>

definition new_eyetracker :: "real \<Rightarrow> bool \<Rightarrow> bounds option \<Rightarrow> eyetracker" where
  "new_eyetracker rate enable_screen_tracking display =
     \<lparr>aruco_info = MARKER_INFO_DEFAULT,
      screen_size = None,
      max_wait_time = 1,
      connected = False,
      camera_started = False,
      latest_sample_timestamp = 0,
      latest_gaze_in_screen = [0, 0],
      latest_binocular_gaze_data = [0, 0, 0, 0, 0, 0],
      latest_pupil_diameter_data = [0, 0],
      sampling_rate = rate,
      screen_tracking = enable_screen_tracking,
      latest_sample = None,
      latest_gaze_position = None,
      display_device = display,
      is_reporting_events = False,
      native_event_buffer = [],
      api_calls = [],
      stderr = []\<rparr>"

definition request :: "api_call \<Rightarrow> eyetracker \<Rightarrow> eyetracker" where
  "request c s = s\<lparr>api_calls := api_calls s @ [c]\<rparr>"

definition print2err :: "string \<Rightarrow> eyetracker \<Rightarrow> eyetracker" where
  "print2err msg s = s\<lparr>stderr := stderr s @ [msg]\<rparr>"

definition isConnected :: "eyetracker \<Rightarrow> bool" where
  "isConnected s = connected s"

definition isRecordingEnabled :: "eyetracker \<Rightarrow> bool" where
  "isRecordingEnabled s = is_reporting_events s"

definition getLastSample :: "eyetracker \<Rightarrow> field list option" where
  "getLastSample s = latest_sample s"

definition getLastGazePosition :: "eyetracker \<Rightarrow> real list option" where
  "getLastGazePosition s = latest_gaze_position s"

subsection \<open>The host's device base class\<close>

text \<open>
  Modelled from the spec: the host framework's generic device base (\<open>isReportingEvents\<close>,
  \<open>enableEventReporting\<close>, \<open>_addNativeEventToBuffer\<close>) is not under src/. The spec lists
  them as the interface of the device base; they read and set the reporting flag that
  \<open>isRecordingEnabled\<close> returns, and append to the event buffer. The spec gives no more
  than the name of \<open>enableEventReporting\<close>, so \<open>setRecordingState\<close> below takes the host's
  method as an argument; the definition here is the method that sets the flag and does
  nothing else.
\<close>

definition isReportingEvents :: "eyetracker \<Rightarrow> bool" where
  "isReportingEvents s = is_reporting_events s"

definition enableEventReporting :: "bool \<Rightarrow> eyetracker \<Rightarrow> bool \<times> eyetracker" where
  "enableEventReporting enabled s = (enabled, s\<lparr>is_reporting_events := enabled\<rparr>)"

definition addNativeEventToBuffer :: "native_event \<Rightarrow> eyetracker \<Rightarrow> eyetracker" where
  "addNativeEventToBuffer ev s = s\<lparr>native_event_buffer := native_event_buffer s @ [ev]\<rparr>"



subsection \<open>The stream handlers\<close>

definition handleNativeEvent :: "native_event \<Rightarrow> eyetracker \<Rightarrow> eyetracker" where
  "handleNativeEvent native_event_data s =
     (if isReportingEvents s then addNativeEventToBuffer native_event_data s else s)"

text \<open>
  The tuple \<open>_handle_gaze_data\<close> builds: the unpacked arrays are copied into it, number
  by number, when it is built.
\<close>

definition gaze_sample :: "eyetracker \<Rightarrow> real \<Rightarrow> real \<Rightarrow> real \<Rightarrow> real \<Rightarrow> real \<Rightarrow> native_event" where
  "gaze_sample s timestamp vec_x vec_y vec_z vergence =
     (BINOCULAR_EYE_SAMPLE,
      [timestamp, vec_x, vec_y, vec_z, vergence]
        @ latest_gaze_in_screen s
        @ latest_binocular_gaze_data s
        @ latest_pupil_diameter_data s)"

definition handle_gaze_data ::
  "real \<Rightarrow> real \<Rightarrow> real \<Rightarrow> real \<Rightarrow> real \<Rightarrow> eyetracker \<Rightarrow> eyetracker" where
  "handle_gaze_data timestamp vec_x vec_y vec_z vergence s =
     (let s1 = s\<lparr>latest_sample_timestamp := timestamp\<rparr>
      in handleNativeEvent (gaze_sample s1 timestamp vec_x vec_y vec_z vergence) s1)"

definition handle_binocular_gaze_data ::
  "real \<Rightarrow> real \<Rightarrow> real \<Rightarrow> real \<Rightarrow> real \<Rightarrow> real \<Rightarrow> real \<Rightarrow> eyetracker \<Rightarrow> eyetracker" where
  "handle_binocular_gaze_data timestamp rx ry rz lx ly lz s =
     s\<lparr>latest_binocular_gaze_data := [rx, ry, rz, lx, ly, lz]\<rparr>"

definition handle_gaze_in_screen_data :: "real \<Rightarrow> real \<Rightarrow> real \<Rightarrow> eyetracker \<Rightarrow> eyetracker" where
  "handle_gaze_in_screen_data timestamp xpos ypos s =
     (let (xpos', ypos') = eyeTrackerToDisplayCoords (display_device s) (xpos, ypos)
      in s\<lparr>latest_gaze_in_screen := [xpos', ypos']\<rparr>)"

definition handle_pupil_diameter :: "real \<Rightarrow> real \<Rightarrow> real \<Rightarrow> eyetracker \<Rightarrow> eyetracker" where
  "handle_pupil_diameter timestamp right_pupil left_pupil s =
     s\<lparr>latest_pupil_diameter_data := [right_pupil, left_pupil]\<rparr>"

text \<open>
  An event of the SDK's events stream, with the arguments the SDK sends for its kind: a
  blink carries its duration, the end of a procedure its acknowledgement code.
\<close>

datatype sdk_event = BLINK real | PROCEDURE_ENDED ack_code | Other_event nat

definition handle_events :: "sdk_event \<Rightarrow> real \<Rightarrow> eyetracker \<Rightarrow> eyetracker" where
  "handle_events event timestamp s =
     (case event of
        BLINK duration \<Rightarrow> handleNativeEvent (BLINK_END, [timestamp, duration]) s
      | _ \<Rightarrow> s)"

text \<open>
  \<open>_handle_connect(error)\<close>: \<open>error\<close> is modelled by its truth value.
\<close>

definition handle_connect :: "bool \<Rightarrow> eyetracker \<Rightarrow> eyetracker" where
  "handle_connect error s =
     (if \<not> error then
        (let s1 = (if screen_tracking s then
                     request (Set_event_control BLINK_BIT 1)
                       (request (Set_stream_control PUPIL_DIAMETER (sampling_rate s))
                         (request (Set_stream_control GAZE_IN_SCREEN (sampling_rate s))
                           (request (Set_stream_control PER_EYE_GAZE (sampling_rate s))
                             (request (Set_stream_control EXTENDED_GAZE (sampling_rate s)) s))))
                   else s)
         in s1\<lparr>connected := True\<rparr>)
      else print2err ''adhawkapi.errormsg(error)'' s)"

text \<open>
  \<open>_handle_camera_start_response(response)\<close>; the message it prints on a failure goes to
  standard output, which the model does not keep.
\<close>

definition handle_camera_start_response :: "ack_code \<Rightarrow> eyetracker \<Rightarrow> eyetracker" where
  "handle_camera_start_response response s = s\<lparr>camera_started := (response = SUCCESS)\<rparr>"

text \<open>
  The callbacks the SDK can invoke on the device while the adapter sleeps in
  \<open>gevent.sleep\<close>, or between two calls of its methods.
\<close>

datatype callback =
    Connect_cb bool
  | Camera_start_response ack_code
  | Gaze_data real real real real real
  | Binocular_gaze_data real real real real real real real
  | Gaze_in_screen_data real real real
  | Pupil_diameter real real real
  | Events sdk_event real

fun deliver :: "callback \<Rightarrow> eyetracker \<Rightarrow> eyetracker" where
  "deliver (Connect_cb error) s = handle_connect error s"
| "deliver (Camera_start_response response) s = handle_camera_start_response response s"
| "deliver (Gaze_data timestamp vec_x vec_y vec_z vergence) s =
     handle_gaze_data timestamp vec_x vec_y vec_z vergence s"
| "deliver (Binocular_gaze_data timestamp rx ry rz lx ly lz) s =
     handle_binocular_gaze_data timestamp rx ry rz lx ly lz s"
| "deliver (Gaze_in_screen_data timestamp xpos ypos) s =
     handle_gaze_in_screen_data timestamp xpos ypos s"
| "deliver (Pupil_diameter timestamp right_pupil left_pupil) s =
     handle_pupil_diameter timestamp right_pupil left_pupil s"
| "deliver (Events event timestamp) s = handle_events event timestamp s"

fun deliver_all :: "callback list \<Rightarrow> eyetracker \<Rightarrow> eyetracker" where
  "deliver_all [] s = s"
| "deliver_all (c # cs) s = deliver_all cs (deliver c s)"

subsection \<open>Blocking waits\<close>

text \<open>
  The adapter waits by polling: it tests a flag, reads \<open>time.perf_counter()\<close> and yields in
  \<open>gevent.sleep\<close>, during which the SDK invokes callbacks. The environment of a blocking
  method is a schedule, a list of ticks: a tick is the clock reading of one test and the
  callbacks delivered during the sleep that follows it. A method returns the ticks it has
  not slept through. A schedule that ends while a loop is still waiting does not say
  whether the method returns: the result is \<open>None\<close>.
\<close>

type_synonym tick = "real \<times> callback list"

text \<open>
  \<^verbatim>\<open>
  while not self._flag:
      if (time.perf_counter() - start_time) > self._max_wait_time:
          break
      gevent.sleep(self._wait_interval_time)
  \<close>
  The loops of \<open>setConnectionState\<close> and \<open>_start_camera\<close>, for the flag they wait for.
\<close>

fun wait_for :: "(eyetracker \<Rightarrow> bool) \<Rightarrow> real \<Rightarrow> eyetracker \<Rightarrow> tick list
    \<Rightarrow> (eyetracker \<times> tick list) option" where
  "wait_for flag start_time s [] = (if flag s then Some (s, []) else None)"
| "wait_for flag start_time s ((now, cbs) # ts) =
     (if flag s then Some (s, (now, cbs) # ts)
      else if now - start_time > max_wait_time s then Some (s, (now, cbs) # ts)
      else wait_for flag start_time (deliver_all cbs s) ts)"

text \<open>
  \<open>start_time = time.perf_counter()\<close> is read just before the first test of the loop: it
  is the reading of the first tick.
\<close>

definition start_camera :: "eyetracker \<Rightarrow> tick list \<Rightarrow> (eyetracker \<times> tick list) option" where
  "start_camera s ts =
     (if \<not> camera_started s then
        (case ts of
           [] \<Rightarrow> None
         | (start_time, cbs) # rest \<Rightarrow>
             wait_for camera_started start_time (request Start_camera_capture s) ts)
      else Some (s, ts))"

definition stop_camera :: "eyetracker \<Rightarrow> eyetracker" where
  "stop_camera s = request Stop_camera_capture s"

definition start_screen_tracking :: "eyetracker \<Rightarrow> tick list \<Rightarrow> (eyetracker \<times> tick list) option" where
  "start_screen_tracking s ts =
     (case (if \<not> camera_started s then start_camera s ts else Some (s, ts)) of
        None \<Rightarrow> None
      | Some (s1, ts1) \<Rightarrow> Some (request Start_screen_tracking s1, ts1))"

definition stop_screen_tracking :: "eyetracker \<Rightarrow> eyetracker" where
  "stop_screen_tracking s = request Stop_screen_tracking s"

text \<open>
  \<open>_initiate_screen_tracking\<close>. With a marker table that has rows it reads
  \<open>self._screen_size[0]\<close>, which raises when the screen size is still \<open>None\<close>; the
  positions are the rows' corner positions and sizes, times \<open>1e-2\<close>.
\<close>

definition initiate_screen_tracking :: "eyetracker \<Rightarrow> py_error + eyetracker" where
  "initiate_screen_tracking s =
     (if aruco_info s = [] then
        Inr ((print2err MARKERS_NOT_DEFINED_MSG s)\<lparr>aruco_info := MARKER_INFO_DEFAULT\<rparr>)
      else
        (case screen_size s of
           None \<Rightarrow> Inl TypeError
         | Some (width, height) \<Rightarrow>
             Inr (request
                    (Register_screen_board width height
                       (map aruco_id (aruco_info s))
                       (map (\<lambda>m. [pos_x_cm_corner m * (1 / 100),
                                   pos_y_cm_corner m * (1 / 100),
                                   size_cm m * (1 / 100)])
                            (aruco_info s)))
                    s)))"

subsection \<open>Connection and recording\<close>

text \<open>
  \<open>setConnectionState(enable)\<close> returns \<open>self._connected\<close>. The front end object
  \<open>self._frontend_api\<close> is created in \<open>__init__\<close> and is true as a condition.
\<close>

definition setConnectionState :: "bool \<Rightarrow> eyetracker \<Rightarrow> tick list
    \<Rightarrow> (bool \<times> eyetracker \<times> tick list) option" where
  "setConnectionState enable s ts =
     (if enable \<and> \<not> isConnected s then
        (let s1 = request Start
                    (request (Register_stream_handler EVENTS Handle_events)
                      (request (Register_stream_handler PUPIL_DIAMETER Handle_pupil_diameter)
                        (request (Register_stream_handler GAZE_IN_SCREEN Handle_gaze_in_screen_data)
                          (request (Register_stream_handler PER_EYE_GAZE Handle_binocular_gaze_data)
                            (request (Register_stream_handler EXTENDED_GAZE Handle_gaze_data) s)))))
         in (case ts of
               [] \<Rightarrow> None
             | (start_time, cbs) # rest \<Rightarrow>
                 (case wait_for connected start_time s1 ts of
                    None \<Rightarrow> None
                  | Some (s2, ts2) \<Rightarrow>
                      (let s3 = (if \<not> isConnected s2
                                 then print2err ''Couldn't connect to the Adhawk Eye Tracker'' s2
                                 else s2)
                       in Some (connected s3, s3, ts2)))))
      else if \<not> enable \<and> isConnected s then
        (let s1 = (if screen_tracking s then stop_camera (stop_screen_tracking s) else s);
             s2 = (request Shutdown s1)\<lparr>connected := False\<rparr>
         in Some (connected s2, s2, ts))
      else Some (connected s, s, ts))"

text \<open>
  \<open>setRecordingState(recording)\<close>: the start path when recording is asked for on a
  connected device with screen tracking enabled, the stop path otherwise. Both paths end
  with \<open>return EyeTrackerDevice.enableEventReporting(self, ...)\<close>, a method of the host:
  it is the argument \<open>host_enableEventReporting\<close>, which gets the state the assignments
  before it have left and gives the returned value and the state it leaves.
\<close>

definition setRecordingState :: "(bool \<Rightarrow> eyetracker \<Rightarrow> bool \<times> eyetracker) \<Rightarrow> bool \<Rightarrow> eyetracker
    \<Rightarrow> tick list \<Rightarrow> ((py_error + bool) \<times> eyetracker \<times> tick list) option" where
  "setRecordingState host_enableEventReporting recording s ts =
     (if recording \<and> connected s \<and> screen_tracking s then
        (case start_camera s ts of
           None \<Rightarrow> None
         | Some (s1, ts1) \<Rightarrow>
             (case initiate_screen_tracking s1 of
                Inl e \<Rightarrow> Some (Inl e, s1, ts1)
              | Inr s2 \<Rightarrow>
                  (case start_screen_tracking s2 ts1 of
                     None \<Rightarrow> None
                   | Some (s3, ts3) \<Rightarrow>
                       (let s4 = s3\<lparr>is_reporting_events := True\<rparr>;
                            (r, s5) = host_enableEventReporting True s4
                        in Some (Inr r, s5, ts3)))))
      else
        (let s1 = stop_camera s;
             s2 = stop_screen_tracking s1;
             s3 = s2\<lparr>latest_sample := None, latest_gaze_position := None,
                     is_reporting_events := False\<rparr>;
             (r, s4) = host_enableEventReporting False s3
         in Some (Inr r, s4, ts)))"

text \<open>
  \<open>__init__\<close>: the assignments, the call of \<open>setConnectionState(True)\<close>, then the two
  assignments of \<open>None\<close>.
\<close>

definition EyeTracker_init :: "real \<Rightarrow> bool \<Rightarrow> bounds option \<Rightarrow> tick list
    \<Rightarrow> (eyetracker \<times> tick list) option" where
  "EyeTracker_init rate enable_screen_tracking display ts =
     (case setConnectionState True (new_eyetracker rate enable_screen_tracking display) ts of
        None \<Rightarrow> None
      | Some (r, s, ts1) \<Rightarrow> Some (s\<lparr>latest_sample := None, latest_gaze_position := None\<rparr>, ts1))"

subsection \<open>Translation of native events\<close>

text \<open>
  \<open>_getIOHubEventObject(native_event_data)\<close>. The next event id and the logged time come
  from the host (\<open>Device._getNextEventID()\<close>, \<open>Computer.getTime()\<close>), \<open>np.degrees\<close> from
  numpy, \<open>**\<close> from the type of the numbers in the tuple: they are arguments. Unpacking
  a tuple of another length raises, and so does a call of \<open>vector_to_angles\<close> that raises;
  an event of another kind falls through and returns \<open>None\<close>.
\<close>

definition getIOHubEventObject :: "(real \<Rightarrow> py_error + real) \<Rightarrow> real numpy \<Rightarrow> (real \<Rightarrow> real)
    \<Rightarrow> real \<Rightarrow> real \<Rightarrow> native_event \<Rightarrow> eyetracker
    \<Rightarrow> py_error + (field list option \<times> eyetracker)" where
  "getIOHubEventObject pow2 np degrees next_event_id logged_time native_event_data s =
     (case native_event_data of
        (BLINK_END, [timestamp, duration]) \<Rightarrow>
          Inr (Some [Num 0, Num 0, Num 0, Num next_event_id, Event_type BLINK_END,
                     Num timestamp, Num logged_time, Num logged_time, Num 0, Num 0, Num 0,
                     BINOCULAR_AVERAGED, Num duration, Num 0], s)
      | (BLINK_END, _) \<Rightarrow> Inl ValueError
      | (BINOCULAR_EYE_SAMPLE,
          [timestamp, vec_x, vec_y, vec_z, vergence, xpos, ypos,
           rx, ry, rz, lx, ly, lz, r_pupil, l_pupil]) \<Rightarrow>
          (case vector_to_angles pow2 np rx ry rz (EnumArg XY) of
             Inl e \<Rightarrow> Inl e
           | Inr angles_right \<Rightarrow>
          (case vector_to_angles pow2 np lx ly lz (EnumArg XY) of
             Inl e \<Rightarrow> Inl e
           | Inr angles_left \<Rightarrow>
          (let gaze_angles_deg_right = map_prod degrees degrees angles_right;
               gaze_angles_deg_left = map_prod degrees degrees angles_left;
               bino_sample =
                 [Num 0, Num 0, Num 0, Num next_event_id, Event_type BINOCULAR_EYE_SAMPLE,
                  Num timestamp, Num logged_time, Num logged_time, Num 0, Num 0, Num 0,
                  Num xpos, Num ypos, Num (- vec_z),
                  UNDEFINED, UNDEFINED, UNDEFINED,
                  Num (fst gaze_angles_deg_left), Num (snd gaze_angles_deg_left),
                  UNDEFINED, UNDEFINED,
                  Num l_pupil, PUPIL_DIAMETER_TYPE,
                  UNDEFINED, UNDEFINED, UNDEFINED, UNDEFINED, UNDEFINED, UNDEFINED, UNDEFINED,
                  Num xpos, Num ypos, Num vec_z,
                  UNDEFINED, UNDEFINED, UNDEFINED,
                  Num (fst gaze_angles_deg_right), Num (snd gaze_angles_deg_right),
                  UNDEFINED, UNDEFINED,
                  Num r_pupil, PUPIL_DIAMETER_TYPE,
                  UNDEFINED, UNDEFINED, UNDEFINED, UNDEFINED, UNDEFINED, UNDEFINED, UNDEFINED,
                  Num 0]
           in Inr (Some bino_sample,
                   s\<lparr>latest_sample := Some bino_sample,
                     latest_gaze_position := Some [xpos, ypos]\<rparr>))))
      | (BINOCULAR_EYE_SAMPLE, _) \<Rightarrow> Inl ValueError)"

subsection \<open>The most recent value of a channel\<close>

text \<open>
  The statement of the aggregation property, in the spec's words: of a sequence of
  callbacks, the most recent value received on a channel, or the initial value when the
  channel has not fired. The value kept for the gaze-in-screen channel is the received
  position in display coordinates.
\<close>

fun gaze_in_screen_of :: "bounds option \<Rightarrow> callback \<Rightarrow> real list option" where
  "gaze_in_screen_of display (Gaze_in_screen_data timestamp xpos ypos) =
     Some [fst (eyeTrackerToDisplayCoords display (xpos, ypos)),
           snd (eyeTrackerToDisplayCoords display (xpos, ypos))]"
| "gaze_in_screen_of display c = None"

fun binocular_of :: "callback \<Rightarrow> real list option" where
  "binocular_of (Binocular_gaze_data timestamp rx ry rz lx ly lz) = Some [rx, ry, rz, lx, ly, lz]"
| "binocular_of c = None"

fun pupil_of :: "callback \<Rightarrow> real list option" where
  "pupil_of (Pupil_diameter timestamp right_pupil left_pupil) = Some [right_pupil, left_pupil]"
| "pupil_of c = None"

definition most_recent :: "(callback \<Rightarrow> 'a option) \<Rightarrow> 'a \<Rightarrow> callback list \<Rightarrow> 'a" where
  "most_recent channel initial cs = last (initial # List.map_filter channel cs)"

definition expected_sample ::
  "eyetracker \<Rightarrow> callback list \<Rightarrow> real \<Rightarrow> real \<Rightarrow> real \<Rightarrow> real \<Rightarrow> real \<Rightarrow> native_event" where
  "expected_sample s cs timestamp vec_x vec_y vec_z vergence =
     (BINOCULAR_EYE_SAMPLE,
      [timestamp, vec_x, vec_y, vec_z, vergence]
        @ most_recent (gaze_in_screen_of (display_device s)) (latest_gaze_in_screen s) cs
        @ most_recent binocular_of (latest_binocular_gaze_data s) cs
        @ most_recent pupil_of (latest_pupil_diameter_data s) cs)"

section \<open>adhawkCalibrationGraphics.py\<close>

text \<open>
  The fields of \<open>AdhawkPsychopyCalibrationGraphics\<close> that \<open>runCalibration\<close> and the
  handlers read and write. Drawing on the window is not modelled. The requests sent to the
  front end and the calls on the host (clearing the event buffers, removing the keyboard
  listener) are logged; \<open>calibration_type\<close> and \<open>randomize\<close> are the settings
  \<open>type\<close> and \<open>randomize\<close> of the calibration arguments.
\<close>

datatype msg = SPACE_KEY_ACTION | QUIT

datatype host_call = Clear_all_event_buffers | Add_event_listener | Remove_event_listener

record calibration_graphics =
  autotune_ended :: bool
  calibration_ended :: bool
  autotune_successful :: bool
  calibration_successful :: bool
  timeout_time_start :: real
  msg_queue :: "msg list"
  calibration_type :: "string option"
  randomize :: bool
  ioKeyboard :: bool
  frontend_requests :: "api_call list"
  host_calls :: "host_call list"
  err_log :: "string list"

definition timeout :: real where
  "timeout = 5"

definition cg_request :: "api_call \<Rightarrow> calibration_graphics \<Rightarrow> calibration_graphics" where
  "cg_request c s = s\<lparr>frontend_requests := frontend_requests s @ [c]\<rparr>"

definition cg_print2err :: "string \<Rightarrow> calibration_graphics \<Rightarrow> calibration_graphics" where
  "cg_print2err m s = s\<lparr>err_log := err_log s @ [m]\<rparr>"

definition clearAllEventBuffers :: "calibration_graphics \<Rightarrow> calibration_graphics" where
  "clearAllEventBuffers s = s\<lparr>host_calls := host_calls s @ [Clear_all_event_buffers]\<rparr>"

definition registerEventMonitors :: "bool \<Rightarrow> calibration_graphics \<Rightarrow> calibration_graphics" where
  "registerEventMonitors kbDevice s =
     (if kbDevice then s\<lparr>ioKeyboard := True, host_calls := host_calls s @ [Add_event_listener]\<rparr>
      else cg_print2err ''Warning: Calibration GFX could not connect to Keyboard device for events.'' s)"

definition unregisterEventMonitors :: "calibration_graphics \<Rightarrow> calibration_graphics" where
  "unregisterEventMonitors s =
     (if ioKeyboard s then s\<lparr>host_calls := host_calls s @ [Remove_event_listener]\<rparr> else s)"

text \<open>
  \<open>__init__\<close>: the handler of the events stream is registered, the procedure events are
  switched on, the flags are cleared, the keyboard listener is added and the event
  buffers are cleared. \<open>kbDevice\<close> says whether the host has a keyboard device.
\<close>

definition new_calibration_graphics :: "string option \<Rightarrow> bool \<Rightarrow> bool \<Rightarrow> calibration_graphics" where
  "new_calibration_graphics ctype rnd kbDevice =
     clearAllEventBuffers
       (registerEventMonitors kbDevice
          \<lparr>autotune_ended = False,
           calibration_ended = False,
           autotune_successful = False,
           calibration_successful = False,
           timeout_time_start = 0,
           msg_queue = [],
           calibration_type = ctype,
           randomize = rnd,
           ioKeyboard = False,
           frontend_requests = [Register_stream_handler EVENTS Calibration_handleEvents,
                                Set_event_control PRODECURE_START_END 1],
           host_calls = [],
           err_log = []\<rparr>)"

definition should_stop :: "real \<Rightarrow> calibration_graphics \<Rightarrow> bool" where
  "should_stop perf_counter s =
     (if timeout_time_start s = 0 then False
      else perf_counter - timeout_time_start s > timeout)"

subsection \<open>The handlers of the calibration\<close>

text \<open>
  An event of the host's keyboard listener: a key press with its key and the reading of
  \<open>time.perf_counter()\<close> at the moment the handler runs, or an event of another type.
\<close>

datatype host_event = Keyboard_press string real | Other_device_event

definition handleEvent :: "host_event \<Rightarrow> calibration_graphics \<Rightarrow> calibration_graphics" where
  "handleEvent event s =
     (case event of
        Keyboard_press ek perf_counter \<Rightarrow>
          (if ek = '' '' \<or> ek = ''space'' then
             clearAllEventBuffers (s\<lparr>msg_queue := msg_queue s @ [SPACE_KEY_ACTION]\<rparr>)
           else if ek = ''escape'' then
             clearAllEventBuffers
               (s\<lparr>timeout_time_start := perf_counter, msg_queue := msg_queue s @ [QUIT]\<rparr>)
           else s)
      | Other_device_event \<Rightarrow> s)"

definition handleEvents :: "sdk_event \<Rightarrow> calibration_graphics \<Rightarrow> calibration_graphics" where
  "handleEvents event s =
     (case event of
        PROCEDURE_ENDED code \<Rightarrow>
          (if \<not> autotune_ended s then
             (let s1 = (if code \<noteq> SUCCESS
                        then cg_print2err ''Failed to start the Adhawk calibration'' s
                        else s\<lparr>autotune_successful := True\<rparr>)
              in s1\<lparr>autotune_ended := True\<rparr>)
           else
             (let s1 = (if code \<noteq> SUCCESS
                        then cg_print2err ''Failed to calibrate eye tracker'' s
                        else s\<lparr>calibration_successful := True\<rparr>)
              in s1\<lparr>calibration_ended := True\<rparr>))
      | _ \<Rightarrow> s)"

definition handleCalibrationGuiResponse :: "ack_code \<Rightarrow> calibration_graphics \<Rightarrow> calibration_graphics" where
  "handleCalibrationGuiResponse code s =
     (if code \<noteq> SUCCESS then
        cg_print2err ''Unable to start the Adhawk calibration''
          (s\<lparr>autotune_ended := True, calibration_ended := True\<rparr>)
      else s)"

text \<open>
  What can run while \<open>runCalibration\<close> yields: the keyboard listener, the handler of the
  events stream, and the callback given to \<open>autotune_gui\<close> and \<open>start_calibration_gui\<close>.
\<close>

datatype cg_callback =
    Host_event host_event
  | Stream_event sdk_event
  | Gui_response ack_code

fun cg_deliver :: "cg_callback \<Rightarrow> calibration_graphics \<Rightarrow> calibration_graphics" where
  "cg_deliver (Host_event event) s = handleEvent event s"
| "cg_deliver (Stream_event event) s = handleEvents event s"
| "cg_deliver (Gui_response code) s = handleCalibrationGuiResponse code s"

fun cg_deliver_all :: "cg_callback list \<Rightarrow> calibration_graphics \<Rightarrow> calibration_graphics" where
  "cg_deliver_all [] s = s"
| "cg_deliver_all (c # cs) s = cg_deliver_all cs (cg_deliver c s)"

text \<open>
  A tick of a run of the calibration: the clock reading of one test of a polling loop,
  and the callbacks delivered during the sleep that follows it. The instruction screen
  and the sleep after it do not read the clock.
\<close>

type_synonym cg_tick = "real \<times> cg_callback list"

subsection \<open>The instruction screen and the polling loops\<close>

definition getNextMsg :: "calibration_graphics \<Rightarrow> msg option \<times> calibration_graphics" where
  "getNextMsg s =
     (case msg_queue s of
        [] \<Rightarrow> (None, s)
      | m # q \<Rightarrow> (Some m, s\<lparr>msg_queue := q\<rparr>))"

text \<open>
  The loop of \<open>_showSystemSetupMessageScreen\<close>: take the next message; on none, pump the
  host's devices and sleep one heartbeat. The callbacks of a tick are those that run
  during the pump and the sleep.
\<close>

fun message_loop :: "calibration_graphics \<Rightarrow> cg_tick list
    \<Rightarrow> (bool \<times> calibration_graphics \<times> cg_tick list) option" where
  "message_loop s [] =
     (case getNextMsg s of
        (Some SPACE_KEY_ACTION, s1) \<Rightarrow> Some (True, clearAllEventBuffers s1, [])
      | (Some QUIT, s1) \<Rightarrow> Some (False, clearAllEventBuffers s1, [])
      | (None, s1) \<Rightarrow> None)"
| "message_loop s ((now, cbs) # ts) =
     (case getNextMsg s of
        (Some SPACE_KEY_ACTION, s1) \<Rightarrow> Some (True, clearAllEventBuffers s1, (now, cbs) # ts)
      | (Some QUIT, s1) \<Rightarrow> Some (False, clearAllEventBuffers s1, (now, cbs) # ts)
      | (None, s1) \<Rightarrow> message_loop (cg_deliver_all cbs s1) ts)"

definition showSystemSetupMessageScreen :: "calibration_graphics \<Rightarrow> cg_tick list
    \<Rightarrow> (bool \<times> calibration_graphics \<times> cg_tick list) option" where
  "showSystemSetupMessageScreen s ts = message_loop (clearAllEventBuffers s) ts"

text \<open>
  \<^verbatim>\<open>
  while not self._autotune_ended and not self._should_stop():
      gevent.sleep(self.IOHUB_HEARTBEAT_INTERVAL)
  \<close>
  and the same loop on \<open>self._calibration_ended\<close>. The result says which of the two
  conditions ended the loop: the flag (\<open>Ended\<close>), or \<open>_should_stop()\<close> (\<open>Timed_out\<close>), which
  is evaluated only while the flag is false.
\<close>

datatype loop_exit = Ended | Timed_out

fun poll :: "(calibration_graphics \<Rightarrow> bool) \<Rightarrow> calibration_graphics \<Rightarrow> cg_tick list
    \<Rightarrow> (loop_exit \<times> calibration_graphics \<times> cg_tick list) option" where
  "poll ended s [] = (if ended s then Some (Ended, s, []) else None)"
| "poll ended s ((now, cbs) # ts) =
     (if ended s then Some (Ended, s, (now, cbs) # ts)
      else if should_stop now s then Some (Timed_out, s, (now, cbs) # ts)
      else poll ended (cg_deliver_all cbs s) ts)"

subsection \<open>runCalibration\<close>

definition calibration_methods :: "(string \<times> nat) list" where
  "calibration_methods =
     [(''THREE_POINTS'', 3), (''FIVE_POINTS'', 5), (''NINE_POINTS'', 9), (''THIRTEEN_POINTS'', 13)]"

text \<open>
  What a run of \<open>runCalibration\<close> gives: the value returned or the exception raised, the
  object afterwards, how each polling loop that ran was left, in order, and the ticks of
  the schedule the run has not slept through.
\<close>

record calibration_run =
  returned :: "py_error + bool"
  final :: calibration_graphics
  exits :: "loop_exit list"
  remaining :: "cg_tick list"

text \<open>
  The end of \<open>runCalibration\<close>: the keyboard listener is removed, the event buffers are
  cleared and \<open>self._calibration_successful\<close> is returned.
\<close>

definition finish :: "loop_exit list \<Rightarrow> cg_tick list \<Rightarrow> calibration_graphics \<Rightarrow> calibration_run" where
  "finish es ts s =
     (let s1 = clearAllEventBuffers (unregisterEventMonitors s)
      in \<lparr>returned = Inr (calibration_successful s1), final = s1, exits = es,
          remaining = ts\<rparr>)"

text \<open>
  \<open>num_points\<close> is assigned only when the setting \<open>type\<close> is a key of
  \<open>calibration_methods\<close>; reading it unassigned, in the arguments of
  \<open>start_calibration_gui\<close>, raises before the request is made. The sleep after the
  instruction screen is one tick of its own.
\<close>

definition runCalibration :: "calibration_graphics \<Rightarrow> cg_tick list \<Rightarrow> calibration_run option" where
  "runCalibration s ts =
     (let num_points = (case calibration_type s of
                          None \<Rightarrow> None
                        | Some t \<Rightarrow> map_of calibration_methods t)
      in case showSystemSetupMessageScreen s ts of
           None \<Rightarrow> None
         | Some (res, s1, ts1) \<Rightarrow>
             (case ts1 of
                [] \<Rightarrow> None
              | (now, cbs) # ts2 \<Rightarrow>
                  (let s2 = cg_deliver_all cbs s1
                   in if \<not> res then
                        (let s3 = cg_print2err ''Adhawk calibration skipped''
                                    (s2\<lparr>autotune_ended := True, calibration_ended := True\<rparr>)
                         in Some \<lparr>returned = Inr (calibration_successful s3), final = s3,
                                  exits = [], remaining = ts2\<rparr>)
                      else
                        (case poll autotune_ended (cg_request (Autotune_gui 35) s2) ts2 of
                           None \<Rightarrow> None
                         | Some (e1, s4, ts3) \<Rightarrow>
                             (if autotune_successful s4 then
                                (let s5 = s4\<lparr>timeout_time_start := 0\<rparr>
                                 in case num_points of
                                      None \<Rightarrow>
                                        Some \<lparr>returned = Inl UnboundLocalError, final = s5,
                                              exits = [e1], remaining = ts3\<rparr>
                                    | Some n \<Rightarrow>
                                        (case poll calibration_ended
                                                (cg_request (Start_calibration_gui n 35 (randomize s5)) s5)
                                                ts3 of
                                           None \<Rightarrow> None
                                         | Some (e2, s7, ts4) \<Rightarrow> Some (finish [e1, e2] ts4 s7)))
                              else Some (finish [e1] ts3 s4))))))"

subsection \<open>Environments of a run\<close>


fun escape_press :: "cg_callback \<Rightarrow> bool" where
  "escape_press (Host_event (Keyboard_press ek perf_counter)) = (ek = ''escape'')"
| "escape_press c = False"




definition no_escape :: "cg_callback list \<Rightarrow> bool" where
  "no_escape cbs = list_all (\<lambda>c. \<not> escape_press c) cbs"

text \<open>
  The reading \<open>_timeout_time_start\<close> holds after callbacks, when it held \<open>t\<close> before them:
  that of the last escape press among them, or \<open>t\<close>. After ticks: the same, through the
  callbacks of every tick.
\<close>

fun timer_after :: "real \<Rightarrow> cg_callback list \<Rightarrow> real" where
  "timer_after t [] = t"
| "timer_after t (Host_event (Keyboard_press ek perf_counter) # cs) =
     timer_after (if ek = ''escape'' then perf_counter else t) cs"
| "timer_after t (c # cs) = timer_after t cs"


text \<open>
  No test of a polling loop at these ticks finds the timeout expired, when the timer
  holds \<open>t\<close> before them: at each test the timer holds 0, or no more than \<open>timeout\<close>
  seconds have passed since the reading it holds.
\<close>

fun in_time :: "real \<Rightarrow> cg_tick list \<Rightarrow> bool" where
  "in_time t [] = True"
| "in_time t ((now, cbs) # ts) =
     ((t = 0 \<or> now - t \<le> timeout) \<and> in_time (timer_after t cbs) ts)"




text \<open>
  Views of the object used in the proofs: the four flags; the flags with the request log
  and the settings; and the object as \<open>__init__\<close> leaves it (empty queue, flags cleared,
  timer not armed).
\<close>

definition flags :: "calibration_graphics \<Rightarrow> bool \<times> bool \<times> bool \<times> bool" where
  "flags s = (autotune_ended s, calibration_ended s, autotune_successful s, calibration_successful s)"


definition fresh :: "calibration_graphics \<Rightarrow> bool" where
  "fresh s = (msg_queue s = [] \<and> flags s = (False, False, False, False) \<and> timeout_time_start s = 0)"

section \<open>Properties of helpers.py\<close>

lemma py_eq_member_exclusive:
  "py_eq_member v YX \<Longrightarrow> \<not> py_eq_member v XY"
  by (cases v) auto

text \<open>
  C6 (the claim as stated fails). The Python floats \<open>(0.0, 1e200, 0.0)\<close> with rotation
  order XY: \<open>ypos ** 2\<close> raises \<open>OverflowError\<close>, so the call returns no angles. The
  functions of numpy are not reached; the record gives stand-ins for them.
\<close>

theorem vector_to_angles_overflow:
  "vector_to_angles float_pow2 \<lparr>arctan2 = (\<lambda>a b. a + b), sqrt_np = (\<lambda>a. a), nan = - 1\<rparr>
      0 (10 ^ 200) 0 (EnumArg XY)
     = Inl OverflowError"
  by (simp add: vector_to_angles_def float_pow2_def)

text \<open>
  C6 (amended). With rotation order XY, when \<open>ypos ** 2\<close> and \<open>zpos ** 2\<close> do not raise,
  \<open>vector_to_angles\<close> returns azimuth \<open>arctan2(x, sqrt(y^2 + z^2))\<close> and elevation
  \<open>arctan2(y, -z)\<close>; with rotation order YX, when \<open>xpos ** 2\<close> and \<open>zpos ** 2\<close> do not
  raise, it returns azimuth \<open>arctan2(x, -z)\<close> and elevation \<open>arctan2(y, sqrt(x^2 + z^2))\<close>,
  where the squares are what \<open>**\<close> returned. When one of the two squares of the branch
  raises, the call raises that exception (that of the first square when it raises).
  The result is what numpy's \<open>arctan2\<close> returns (radians); the model is a function of its
  arguments alone, so nothing else is read or written.
\<close>

theorem vector_to_angles_formulas:
  "(pow2 y = Inr y2 \<and> pow2 z = Inr z2 \<longrightarrow>
      vector_to_angles pow2 np x y z (EnumArg XY) =
        Inr (arctan2 np x (sqrt_np np (y2 + z2)), arctan2 np y (- z)))
   \<and> (pow2 x = Inr x2 \<and> pow2 z = Inr z2 \<longrightarrow>
      vector_to_angles pow2 np x y z (EnumArg YX) =
        Inr (arctan2 np x (- z), arctan2 np y (sqrt_np np (x2 + z2))))
   \<and> (pow2 y = Inl e \<longrightarrow> vector_to_angles pow2 np x y z (EnumArg XY) = Inl e)
   \<and> (pow2 y = Inr y2 \<and> pow2 z = Inl e \<longrightarrow>
      vector_to_angles pow2 np x y z (EnumArg XY) = Inl e)
   \<and> (pow2 x = Inl e \<longrightarrow> vector_to_angles pow2 np x y z (EnumArg YX) = Inl e)
   \<and> (pow2 x = Inr x2 \<and> pow2 z = Inl e \<longrightarrow>
      vector_to_angles pow2 np x y z (EnumArg YX) = Inl e)"
  by (simp add: vector_to_angles_def)

theorem vector_to_angles_formulas_witness:
  "float_pow2 4 = Inr 16 \<and> float_pow2 3 = Inr 9 \<and> float_pow2 2 = Inr 4
   \<and> vector_to_angles float_pow2 \<lparr>arctan2 = (\<lambda>a b. a - 2 * b), sqrt_np = (\<lambda>a. a / 5), nan = - 1\<rparr>
        2 4 3 (EnumArg XY)
       = Inr (- 8, 10)
   \<and> vector_to_angles float_pow2 \<lparr>arctan2 = (\<lambda>a b. a - 2 * b), sqrt_np = (\<lambda>a. a / 5), nan = - 1\<rparr>
        2 4 3 (EnumArg YX)
       = Inr (8, - 6 / 5)
   \<and> float_pow2 (10 ^ 200) = Inl OverflowError
   \<and> vector_to_angles float_pow2 \<lparr>arctan2 = (\<lambda>a b. a - 2 * b), sqrt_np = (\<lambda>a. a / 5), nan = - 1\<rparr>
        (10 ^ 200) (10 ^ 200) 3 (EnumArg XY)
       = Inl OverflowError
   \<and> vector_to_angles float_pow2 \<lparr>arctan2 = (\<lambda>a b. a - 2 * b), sqrt_np = (\<lambda>a. a / 5), nan = - 1\<rparr>
        2 4 (10 ^ 200) (EnumArg XY)
       = Inl OverflowError
   \<and> vector_to_angles float_pow2 \<lparr>arctan2 = (\<lambda>a b. a - 2 * b), sqrt_np = (\<lambda>a. a / 5), nan = - 1\<rparr>
        (10 ^ 200) (10 ^ 200) 3 (EnumArg YX)
       = Inl OverflowError
   \<and> vector_to_angles float_pow2 \<lparr>arctan2 = (\<lambda>a b. a - 2 * b), sqrt_np = (\<lambda>a. a / 5), nan = - 1\<rparr>
        2 4 (10 ^ 200) (EnumArg YX)
       = Inl OverflowError"
proof -
  let ?np = "\<lparr>arctan2 = (\<lambda>a b. a - 2 * b), sqrt_np = (\<lambda>a. a / 5), nan = - (1::real)\<rparr>"
  have a: "float_pow2 4 = Inr 16" "float_pow2 3 = Inr 9" "float_pow2 2 = Inr 4"
    by (simp_all add: float_pow2_def)
  have b: "float_pow2 (10 ^ 200) = Inl OverflowError"
    by (simp add: float_pow2_def)
  show ?thesis
    using vector_to_angles_formulas [of float_pow2 4 16 3 9 ?np 2 4 OverflowError]
          vector_to_angles_formulas [of float_pow2 "10 ^ 200" 16 3 9 ?np "10 ^ 200" 4 OverflowError]
          vector_to_angles_formulas [of float_pow2 4 16 "10 ^ 200" 9 ?np 2 4 OverflowError]
          a b
    by simp
qed

text \<open>
  C9. For every input vector and every \<open>rotation_order\<close> value that equals neither
  \<open>EulerRotationOrder.XY\<close> nor \<open>EulerRotationOrder.YX\<close>, \<open>vector_to_angles\<close> returns the
  pair \<open>(nan, nan)\<close>; no branch of the function raises, whatever \<open>**\<close> would do on the
  components.
\<close>

theorem vector_to_angles_other_order:
  assumes "\<not> py_eq_member rotation_order XY" and "\<not> py_eq_member rotation_order YX"
  shows "vector_to_angles pow2 np x y z rotation_order = Inr (nan np, nan np)"
  using assms by (simp add: vector_to_angles_def)

theorem vector_to_angles_other_order_witness:
  "\<not> py_eq_member (IntArg 2) XY \<and> \<not> py_eq_member (IntArg 2) YX
   \<and> vector_to_angles (\<lambda>a. Inl OverflowError)
        \<lparr>arctan2 = (\<lambda>a b. a + b), sqrt_np = (\<lambda>a. a), nan = (-1::int)\<rparr> 3 4 5 (IntArg 2)
       = Inr (-1, -1)
   \<and> \<not> py_eq_member NoneArg XY \<and> \<not> py_eq_member NoneArg YX
   \<and> vector_to_angles (\<lambda>a. Inr (a * a))
        \<lparr>arctan2 = (\<lambda>a b. a + b), sqrt_np = (\<lambda>a. a), nan = (-1::int)\<rparr> 3 4 5 NoneArg
       = Inr (-1, -1)"
  using vector_to_angles_other_order
          [of "IntArg 2" "\<lambda>a. Inl OverflowError"
              "\<lparr>arctan2 = (\<lambda>a b. a + b), sqrt_np = (\<lambda>a. a), nan = (-1::int)\<rparr>" 3 4 5]
        vector_to_angles_other_order
          [of NoneArg "\<lambda>a. Inr (a * a)"
              "\<lparr>arctan2 = (\<lambda>a b. a + b), sqrt_np = (\<lambda>a. a), nan = (-1::int)\<rparr>" 3 4 5]
  by simp

section \<open>Properties of the coordinate conversion\<close>

lemma display_round_trip_value:
  assumes "b_right - b_left \<noteq> 0" and "b_top - b_bottom \<noteq> 0"
  shows "display_round_trip (Some (b_left, b_top, b_right, b_bottom)) x y
           = Inr (x + 0.5 - (b_right - b_left) / 2, y)"
proof -
  define w where "w = b_right - b_left"
  define h where "h = b_top - b_bottom"
  have w: "w \<noteq> 0" and h: "h \<noteq> 0"
    using assms by (simp_all add: w_def h_def)
  have fx: "w * ((x + 0.5) / w - 0.5) = x + 0.5 - w / 2"
    using w by (simp add: field_simps)
  have fy: "h * (0.5 - (0.5 - y / h)) = y"
    using h by simp
  show ?thesis
    using w h fx fy
    by (simp add: display_round_trip_def displayToEyeTrackerCoords_def
        eyeTrackerToDisplayCoords_def Let_def w_def h_def)
qed

text \<open>
  C2 (the code at the failing input). On a 1920 by 1080 display in pixel units, bounds
  \<open>(-960, 540, 960, -540)\<close>, the centre \<open>(0, 0)\<close> is inside the bounds. The inverse mapping
  places it at \<open>(0.5 / 1920, 0.5)\<close> and the forward mapping returns \<open>(-959.5, 0)\<close>: the
  vertical coordinate comes back, the horizontal one does not.
\<close>

theorem display_round_trip_not_identity:
  "displayToEyeTrackerCoords (Some (-960, 540, 960, -540)) 0 0 = Inr (1 / 3840, 1 / 2)
   \<and> eyeTrackerToDisplayCoords (Some (-960, 540, 960, -540)) (1 / 3840, 1 / 2) = (- 1919 / 2, 0)
   \<and> display_round_trip (Some (-960, 540, 960, -540)) 0 0 \<noteq> Inr (0, 0)"
  by (simp add: display_round_trip_def displayToEyeTrackerCoords_def
      eyeTrackerToDisplayCoords_def Let_def)

section \<open>Properties of the stream handlers\<close>

lemmas handler_defs =
  handle_connect_def handle_camera_start_response_def handle_gaze_data_def
  handle_binocular_gaze_data_def handle_gaze_in_screen_data_def handle_pupil_diameter_def
  handle_events_def handleNativeEvent_def addNativeEventToBuffer_def request_def
  print2err_def isReportingEvents_def

lemma most_recent_Nil: "most_recent ch i [] = i"
  by (simp add: most_recent_def)

lemma most_recent_Cons:
  "most_recent ch i (c # cs) =
     (case ch c of None \<Rightarrow> most_recent ch i cs | Some v \<Rightarrow> most_recent ch v cs)"
  by (simp add: most_recent_def split: option.splits)

lemma deliver_display: "display_device (deliver c s) = display_device s"
  by (cases c) (simp_all add: handler_defs Let_def split: sdk_event.splits prod.splits)

lemma deliver_reporting: "is_reporting_events (deliver c s) = is_reporting_events s"
  by (cases c) (simp_all add: handler_defs Let_def split: sdk_event.splits prod.splits)

lemma deliver_gaze_in_screen:
  "latest_gaze_in_screen (deliver c s) =
     (case gaze_in_screen_of (display_device s) c of
        None \<Rightarrow> latest_gaze_in_screen s
      | Some v \<Rightarrow> v)"
  by (cases c) (simp_all add: handler_defs Let_def split: sdk_event.splits prod.splits)

lemma deliver_binocular:
  "latest_binocular_gaze_data (deliver c s) =
     (case binocular_of c of None \<Rightarrow> latest_binocular_gaze_data s | Some v \<Rightarrow> v)"
  by (cases c) (simp_all add: handler_defs Let_def split: sdk_event.splits prod.splits)

lemma deliver_pupil:
  "latest_pupil_diameter_data (deliver c s) =
     (case pupil_of c of None \<Rightarrow> latest_pupil_diameter_data s | Some v \<Rightarrow> v)"
  by (cases c) (simp_all add: handler_defs Let_def split: sdk_event.splits prod.splits)


lemma deliver_buffer_grows:
  "\<exists>more. native_event_buffer (deliver c s) = native_event_buffer s @ more"
  by (cases c) (simp_all add: handler_defs Let_def split: sdk_event.splits prod.splits)

lemma deliver_not_reporting:
  "\<not> is_reporting_events s \<Longrightarrow> native_event_buffer (deliver c s) = native_event_buffer s"
  by (cases c) (simp_all add: handler_defs Let_def split: sdk_event.splits prod.splits)

lemma deliver_all_append: "deliver_all (cs @ ds) s = deliver_all ds (deliver_all cs s)"
  by (induction cs arbitrary: s) simp_all

lemma deliver_all_display: "display_device (deliver_all cs s) = display_device s"
  by (induction cs arbitrary: s) (simp_all add: deliver_display)

lemma deliver_all_reporting: "is_reporting_events (deliver_all cs s) = is_reporting_events s"
  by (induction cs arbitrary: s) (simp_all add: deliver_reporting)


lemma deliver_all_not_reporting:
  "\<not> is_reporting_events s \<Longrightarrow> native_event_buffer (deliver_all cs s) = native_event_buffer s"
  by (induction cs arbitrary: s) (simp_all add: deliver_not_reporting deliver_reporting)

lemma deliver_all_gaze_in_screen:
  "latest_gaze_in_screen (deliver_all cs s) =
     most_recent (gaze_in_screen_of (display_device s)) (latest_gaze_in_screen s) cs"
proof (induction cs arbitrary: s)
  case Nil
  show ?case by (simp add: most_recent_Nil)
next
  case (Cons c cs)
  show ?case
    by (simp add: Cons.IH most_recent_Cons deliver_display deliver_gaze_in_screen
        split: option.splits)
qed

lemma deliver_all_binocular:
  "latest_binocular_gaze_data (deliver_all cs s) =
     most_recent binocular_of (latest_binocular_gaze_data s) cs"
proof (induction cs arbitrary: s)
  case Nil
  show ?case by (simp add: most_recent_Nil)
next
  case (Cons c cs)
  show ?case
    by (simp add: Cons.IH most_recent_Cons deliver_binocular split: option.splits)
qed

lemma deliver_all_pupil:
  "latest_pupil_diameter_data (deliver_all cs s) =
     most_recent pupil_of (latest_pupil_diameter_data s) cs"
proof (induction cs arbitrary: s)
  case Nil
  show ?case by (simp add: most_recent_Nil)
next
  case (Cons c cs)
  show ?case
    by (simp add: Cons.IH most_recent_Cons deliver_pupil split: option.splits)
qed

lemma deliver_all_buffer_grows:
  "\<exists>more. native_event_buffer (deliver_all cs s) = native_event_buffer s @ more"
proof (induction cs arbitrary: s)
  case Nil
  show ?case by simp
next
  case (Cons c cs)
  obtain m1 where m1: "native_event_buffer (deliver c s) = native_event_buffer s @ m1"
    using deliver_buffer_grows by blast
  obtain m2 where m2: "native_event_buffer (deliver_all cs (deliver c s))
                         = native_event_buffer (deliver c s) @ m2"
    using Cons.IH by blast
  show ?case using m1 m2 by simp
qed

lemma gaze_sample_after:
  "gaze_sample (deliver_all cs s) t vx vy vz vg = expected_sample s cs t vx vy vz vg"
  by (simp add: gaze_sample_def expected_sample_def deliver_all_gaze_in_screen
      deliver_all_binocular deliver_all_pupil)

text \<open>
  C5. For every sequence \<open>cs\<close> of callbacks delivered to the device, the sample built on a
  callback of the primary gaze channel combines the new primary values (timestamp, gaze
  vector, vergence) with the most recent value received in \<open>cs\<close> on each of the
  gaze-in-screen channel (in display coordinates), the per-eye gaze channel and the pupil
  diameter channel, or the value held at the start when the channel has not fired (the
  zeros of \<open>__init__\<close> on a new device). While the device reports events, this sample is
  what the callback appends to the event buffer, and the callbacks delivered \<open>later\<close>
  leave it as it is; while it does not, nothing is appended.
\<close>

theorem sample_reflects_most_recent:
  "gaze_sample (deliver_all cs s) t vx vy vz vg = expected_sample s cs t vx vy vz vg
   \<and> (is_reporting_events s \<longrightarrow>
        (\<exists>more. native_event_buffer (deliver_all (cs @ Gaze_data t vx vy vz vg # later) s)
           = native_event_buffer (deliver_all cs s) @ expected_sample s cs t vx vy vz vg # more))
   \<and> (\<not> is_reporting_events s \<longrightarrow>
        native_event_buffer (deliver_all (cs @ Gaze_data t vx vy vz vg # later) s)
           = native_event_buffer s)"
proof (intro conjI impI)
  show "gaze_sample (deliver_all cs s) t vx vy vz vg = expected_sample s cs t vx vy vz vg"
    by (rule gaze_sample_after)
next
  assume rep: "is_reporting_events s"
  let ?s1 = "deliver_all cs s"
  let ?s2 = "deliver (Gaze_data t vx vy vz vg) ?s1"
  have g: "gaze_sample (?s1\<lparr>latest_sample_timestamp := t\<rparr>) t vx vy vz vg
             = expected_sample s cs t vx vy vz vg"
    using gaze_sample_after [of cs s t vx vy vz vg] by (simp add: gaze_sample_def)
  have "is_reporting_events ?s1" using rep by (simp add: deliver_all_reporting)
  then have b2: "native_event_buffer ?s2
      = native_event_buffer ?s1 @ [expected_sample s cs t vx vy vz vg]"
    using g by (simp add: handle_gaze_data_def handleNativeEvent_def isReportingEvents_def
        addNativeEventToBuffer_def Let_def)
  obtain more where "native_event_buffer (deliver_all later ?s2) = native_event_buffer ?s2 @ more"
    using deliver_all_buffer_grows by blast
  then show "\<exists>more. native_event_buffer (deliver_all (cs @ Gaze_data t vx vy vz vg # later) s)
           = native_event_buffer (deliver_all cs s) @ expected_sample s cs t vx vy vz vg # more"
    using b2 by (simp add: deliver_all_append)
next
  assume "\<not> is_reporting_events s"
  then show "native_event_buffer (deliver_all (cs @ Gaze_data t vx vy vz vg # later) s)
           = native_event_buffer s"
    by (rule deliver_all_not_reporting)
qed

theorem sample_reflects_most_recent_witness:
  "gaze_sample
     (deliver_all [Pupil_diameter 1 3 4, Gaze_in_screen_data 2 (3 / 4) (1 / 4), Pupil_diameter 3 5 6]
        ((new_eyetracker 60 True (Some (-960, 540, 960, -540)))\<lparr>is_reporting_events := True\<rparr>))
     4 0 0 (-1) 2
     = (BINOCULAR_EYE_SAMPLE, [4, 0, 0, -1, 2, 480, 270, 0, 0, 0, 0, 0, 0, 5, 6])
   \<and> is_reporting_events ((new_eyetracker 60 True (Some (-960, 540, 960, -540)))\<lparr>is_reporting_events := True\<rparr>)
   \<and> (\<exists>more. native_event_buffer
          (deliver_all ([Pupil_diameter 1 3 4, Gaze_in_screen_data 2 (3 / 4) (1 / 4), Pupil_diameter 3 5 6]
                          @ Gaze_data 4 0 0 (-1) 2 # [Pupil_diameter 5 7 8])
             ((new_eyetracker 60 True (Some (-960, 540, 960, -540)))\<lparr>is_reporting_events := True\<rparr>))
        = native_event_buffer
            (deliver_all [Pupil_diameter 1 3 4, Gaze_in_screen_data 2 (3 / 4) (1 / 4), Pupil_diameter 3 5 6]
               ((new_eyetracker 60 True (Some (-960, 540, 960, -540)))\<lparr>is_reporting_events := True\<rparr>))
          @ (BINOCULAR_EYE_SAMPLE, [4, 0, 0, -1, 2, 480, 270, 0, 0, 0, 0, 0, 0, 5, 6]) # more)
   \<and> \<not> is_reporting_events (new_eyetracker 60 True (Some (-960, 540, 960, -540)))
   \<and> native_event_buffer
        (deliver_all ([Pupil_diameter 1 3 4] @ Gaze_data 4 0 0 (-1) 2 # [Pupil_diameter 5 7 8])
           (new_eyetracker 60 True (Some (-960, 540, 960, -540))))
       = []"
proof -
  let ?cs = "[Pupil_diameter 1 3 4, Gaze_in_screen_data 2 (3 / 4) (1 / 4), Pupil_diameter 3 5 6]"
  let ?s = "(new_eyetracker 60 True (Some (-960, 540, 960, -540)))\<lparr>is_reporting_events := True\<rparr>"
  have e: "expected_sample ?s ?cs 4 0 0 (-1) 2
             = (BINOCULAR_EYE_SAMPLE, [4, 0, 0, -1, 2, 480, 270, 0, 0, 0, 0, 0, 0, 5, 6])"
    by (simp add: expected_sample_def most_recent_def new_eyetracker_def
        eyeTrackerToDisplayCoords_def)
  have r: "is_reporting_events ?s" by simp
  have n: "\<not> is_reporting_events (new_eyetracker 60 True (Some (-960, 540, 960, -540)))"
    by (simp add: new_eyetracker_def)
  have b: "native_event_buffer (new_eyetracker 60 True (Some (-960, 540, 960, -540))) = []"
    by (simp add: new_eyetracker_def)
  show ?thesis
    using sample_reflects_most_recent [of ?cs ?s 4 0 0 "-1" 2 "[Pupil_diameter 5 7 8]"]
      sample_reflects_most_recent [of "[Pupil_diameter 1 3 4]"
        "new_eyetracker 60 True (Some (-960, 540, 960, -540))" 4 0 0 "-1" 2 "[Pupil_diameter 5 7 8]"]
      e r n b
    by simp
qed

section \<open>Properties of connection and recording\<close>

text \<open>
  C7. \<open>setConnectionState(True)\<close> on a connected device returns \<open>True\<close> at once: the
  device is as before (no handler registered, no connect request in the log) and no tick
  of the schedule is consumed, so the polling wait is not entered. In particular a second
  call after a call that returned \<open>True\<close> changes nothing. \<open>setConnectionState(False)\<close> on a
  device that is not connected returns \<open>False\<close> and changes nothing: no shutdown request.
\<close>

theorem setConnectionState_idempotent:
  "(connected s \<longrightarrow> setConnectionState True s ts = Some (True, s, ts))
   \<and> (\<not> connected s \<longrightarrow> setConnectionState False s ts = Some (False, s, ts))
   \<and> (setConnectionState True s ts = Some (True, s', ts')
        \<longrightarrow> setConnectionState True s' ts' = Some (True, s', ts'))"
proof (intro conjI impI)
  assume "connected s"
  then show "setConnectionState True s ts = Some (True, s, ts)"
    by (simp add: setConnectionState_def isConnected_def)
next
  assume "\<not> connected s"
  then show "setConnectionState False s ts = Some (False, s, ts)"
    by (simp add: setConnectionState_def isConnected_def)
next
  assume r: "setConnectionState True s ts = Some (True, s', ts')"
  have "connected s'"
    using r
    by (auto simp: setConnectionState_def isConnected_def Let_def
        split: if_splits list.splits option.splits prod.splits)
  then show "setConnectionState True s' ts' = Some (True, s', ts')"
    by (simp add: setConnectionState_def isConnected_def)
qed

theorem setConnectionState_idempotent_witness:
  "connected ((new_eyetracker 60 True None)\<lparr>connected := True\<rparr>)
   \<and> setConnectionState True ((new_eyetracker 60 True None)\<lparr>connected := True\<rparr>) [(0, [Connect_cb False])]
       = Some (True, (new_eyetracker 60 True None)\<lparr>connected := True\<rparr>, [(0, [Connect_cb False])])
   \<and> \<not> connected (new_eyetracker 60 True None)
   \<and> setConnectionState False (new_eyetracker 60 True None) []
       = Some (False, new_eyetracker 60 True None, [])
   \<and> (\<exists>s'. setConnectionState True (new_eyetracker 60 False None) [(0, [Connect_cb False]), (1 / 1000, [])]
              = Some (True, s', [(1 / 1000, [])])
           \<and> setConnectionState True s' [(1 / 1000, [])] = Some (True, s', [(1 / 1000, [])]))"
proof -
  let ?n = "new_eyetracker 60 False None"
  obtain s' where first: "setConnectionState True ?n [(0, [Connect_cb False]), (1 / 1000, [])]
              = Some (True, s', [(1 / 1000, [])])"
    by (simp add: setConnectionState_def new_eyetracker_def isConnected_def
      request_def handle_connect_def Let_def)
  have c: "connected ((new_eyetracker 60 True None)\<lparr>connected := True\<rparr>)" by simp
  have d: "\<not> connected (new_eyetracker 60 True None)" by (simp add: new_eyetracker_def)
  show ?thesis
    using setConnectionState_idempotent
            [of "(new_eyetracker 60 True None)\<lparr>connected := True\<rparr>" "[(0, [Connect_cb False])]"]
          setConnectionState_idempotent [of "new_eyetracker 60 True None" "[]"]
          setConnectionState_idempotent [of ?n "[(0, [Connect_cb False]), (1 / 1000, [])]" s' "[(1 / 1000, [])]"]
          first c d
    by simp
qed

text \<open>
  C8. \<open>_initiate_screen_tracking\<close> with a marker table that has no row returns without
  raising; the device afterwards is the device before with the warning appended to the
  error log. The log of requests is unchanged: no \<open>register_screen_board\<close> request and no
  request that would start screen tracking.
\<close>

theorem initiate_screen_tracking_empty:
  assumes "aruco_info s = []"
  shows "\<exists>s'. initiate_screen_tracking s = Inr s'
           \<and> s' = s\<lparr>stderr := stderr s @ [MARKERS_NOT_DEFINED_MSG]\<rparr>
           \<and> api_calls s' = api_calls s"
  using assms by (simp add: initiate_screen_tracking_def print2err_def MARKER_INFO_DEFAULT_def)

theorem initiate_screen_tracking_empty_witness:
  "aruco_info (new_eyetracker 60 True None) = []
   \<and> (\<exists>s'. initiate_screen_tracking (new_eyetracker 60 True None) = Inr s'
          \<and> s' = (new_eyetracker 60 True None)
                   \<lparr>stderr := stderr (new_eyetracker 60 True None) @ [MARKERS_NOT_DEFINED_MSG]\<rparr>
          \<and> api_calls s' = api_calls (new_eyetracker 60 True None))"
proof -
  have e: "aruco_info (new_eyetracker 60 True None) = []"
    by (simp add: new_eyetracker_def MARKER_INFO_DEFAULT_def)
  show ?thesis
    using initiate_screen_tracking_empty [OF e] e by simp
qed

lemma initiate_screen_tracking_registers:
  assumes "aruco_info s \<noteq> []" and "screen_size s = Some (width, height)"
  shows "\<exists>ids positions. initiate_screen_tracking s
           = Inr (request (Register_screen_board width height ids positions) s)"
  using assms by (simp add: initiate_screen_tracking_def) blast




lemma getIOHubEventObject_sets_latest:
  assumes "getIOHubEventObject pow2 np degrees eid logged (BINOCULAR_EYE_SAMPLE, vals) s = Inr (r, s')"
  shows "\<exists>sample. r = Some sample \<and> getLastSample s' = Some sample
           \<and> getLastGazePosition s' = Some [vals ! 5, vals ! 6]"
  using assms
  by (auto simp: getIOHubEventObject_def getLastSample_def getLastGazePosition_def Let_def
      split: list.splits sum.splits)

lemma recording_without_screen_tracking_is_stop:
  "\<not> screen_tracking s \<Longrightarrow> setRecordingState host True s ts = setRecordingState host False s ts"
  by (simp add: setRecordingState_def)

text \<open>
  C1 (the code at the failing input). A device constructed with
  \<open>enable_screen_tracking = False\<close> whose connect callback runs without an error during
  the first wait (\<open>Connect_cb False\<close>) is connected. \<open>setRecordingState(True)\<close> on it takes the stop path: it returns \<open>False\<close>,
  \<open>isRecordingEnabled()\<close> is false afterwards, and a primary gaze callback and a blink
  event delivered next leave the event buffer empty.
\<close>

theorem recording_without_screen_tracking:
  "\<exists>s s'. EyeTracker_init 60 False (Some (-960, 540, 960, -540)) [(0, [Connect_cb False])] = Some (s, [])
      \<and> isConnected s \<and> \<not> screen_tracking s
      \<and> setRecordingState enableEventReporting True s [] = Some (Inr False, s', [])
      \<and> \<not> isRecordingEnabled s'
      \<and> native_event_buffer (deliver_all [Gaze_data 1 0 0 (-1) 0, Events (BLINK (1 / 10)) 2] s') = []"
  by (simp add: EyeTracker_init_def setConnectionState_def new_eyetracker_def isConnected_def
      request_def handle_connect_def setRecordingState_def stop_camera_def stop_screen_tracking_def
      enableEventReporting_def isRecordingEnabled_def handle_gaze_data_def handle_events_def
      handleNativeEvent_def isReportingEvents_def Let_def)

section \<open>Properties of the calibration\<close>

lemmas cg_handler_defs =
  handleEvent_def handleEvents_def handleCalibrationGuiResponse_def clearAllEventBuffers_def
  cg_print2err_def




lemma cg_deliver_timeout: "\<not> escape_press c \<Longrightarrow> timeout_time_start (cg_deliver c s) = timeout_time_start s"
  by (cases c rule: escape_press.cases)
     (simp_all add: cg_handler_defs Let_def split: host_event.splits sdk_event.splits)







lemma cg_deliver_all_timeout:
  "no_escape cs \<Longrightarrow> timeout_time_start (cg_deliver_all cs s) = timeout_time_start s"
  by (induction cs arbitrary: s) (simp_all add: no_escape_def cg_deliver_timeout)








lemma message_loop_queued:
  "msg_queue s = m # q \<Longrightarrow>
     message_loop s ts = Some (m = SPACE_KEY_ACTION, clearAllEventBuffers (s\<lparr>msg_queue := q\<rparr>), ts)"
  by (cases ts; cases m) (auto simp: getNextMsg_def)






lemma new_calibration_graphics_fresh: "fresh (new_calibration_graphics ctype rnd kb)"
  by (simp add: fresh_def flags_def new_calibration_graphics_def clearAllEventBuffers_def
      registerEventMonitors_def cg_print2err_def)
















lemma message_loop_consumed:
  assumes "message_loop s ts = Some (b, s', ts')"
  shows "\<exists>c. ts = c @ ts'
           \<and> ((\<forall>t \<in> set c. no_escape (snd t)) \<longrightarrow> timeout_time_start s' = timeout_time_start s)"
  using assms
proof (induction s ts rule: message_loop.induct)
  case (1 s)
  then have "ts' = []" and "timeout_time_start s' = timeout_time_start s"
    by (auto simp: getNextMsg_def clearAllEventBuffers_def split: list.splits msg.splits)
  then show ?case by simp
next
  case (2 s now cbs ts)
  show ?case
  proof (cases "msg_queue s")
    case Nil
    then have g: "getNextMsg s = (None, s)" by (simp add: getNextMsg_def)
    have p: "message_loop (cg_deliver_all cbs s) ts = Some (b, s', ts')"
      using "2.prems" g by simp
    obtain c where c: "ts = c @ ts'"
      and t: "(\<forall>t \<in> set c. no_escape (snd t))
                \<longrightarrow> timeout_time_start s' = timeout_time_start (cg_deliver_all cbs s)"
      using "2.IH" [OF g [symmetric] refl p] by blast
    have "(now, cbs) # ts = ((now, cbs) # c) @ ts'" using c by simp
    moreover have "(\<forall>t \<in> set ((now, cbs) # c). no_escape (snd t))
                \<longrightarrow> timeout_time_start s' = timeout_time_start s"
      using t by (simp add: cg_deliver_all_timeout)
    ultimately show ?thesis by blast
  next
    case (Cons m q)
    have "ts' = (now, cbs) # ts" and "timeout_time_start s' = timeout_time_start s"
      using "2.prems" message_loop_queued [OF Cons, of "(now, cbs) # ts"]
      by (simp_all add: clearAllEventBuffers_def)
    then have "(now, cbs) # ts = [] @ ts'
        \<and> ((\<forall>t \<in> set []. no_escape (snd t)) \<longrightarrow> timeout_time_start s' = timeout_time_start s)"
      by simp
    then show ?thesis by blast
  qed
qed

lemma poll_consumed:
  assumes "poll ended s ts = Some (e, s', ts')"
  shows "\<exists>c. ts = c @ ts'
           \<and> (timeout_time_start s = 0 \<and> (\<forall>t \<in> set c. no_escape (snd t))
                \<longrightarrow> e = Ended \<and> timeout_time_start s' = 0)"
  using assms
proof (induction ts arbitrary: s)
  case Nil
  then have "ts' = []" and "e = Ended" and "s' = s" by (simp_all split: if_splits)
  then show ?case by simp
next
  case (Cons t ts)
  obtain now cbs where t: "t = (now, cbs)" by (cases t)
  show ?case
  proof (cases "ended s")
    case True
    then have "ts' = t # ts" and "e = Ended" and "s' = s" using Cons.prems t by simp_all
    then have "t # ts = [] @ ts'
        \<and> (timeout_time_start s = 0 \<and> (\<forall>t \<in> set []. no_escape (snd t))
              \<longrightarrow> e = Ended \<and> timeout_time_start s' = 0)"
      by simp
    then show ?thesis by blast
  next
    case False
    show ?thesis
    proof (cases "should_stop now s")
      case True
      then have "ts' = t # ts" and "timeout_time_start s \<noteq> 0"
        using Cons.prems t False by (auto simp: should_stop_def split: if_splits)
      then have "t # ts = [] @ ts'
          \<and> (timeout_time_start s = 0 \<and> (\<forall>t \<in> set []. no_escape (snd t))
                \<longrightarrow> e = Ended \<and> timeout_time_start s' = 0)"
        by simp
      then show ?thesis by blast
    next
      case ns: False
      have p: "poll ended (cg_deliver_all cbs s) ts = Some (e, s', ts')"
        using Cons.prems t False ns by simp
      obtain c where c: "ts = c @ ts'"
        and k: "timeout_time_start (cg_deliver_all cbs s) = 0 \<and> (\<forall>t \<in> set c. no_escape (snd t))
                  \<longrightarrow> e = Ended \<and> timeout_time_start s' = 0"
        using Cons.IH [OF p] by blast
      have "t # ts = (t # c) @ ts'" using c by simp
      moreover have "timeout_time_start s = 0 \<and> (\<forall>t \<in> set (t # c). no_escape (snd t))
                  \<longrightarrow> e = Ended \<and> timeout_time_start s' = 0"
        using k t by (simp add: cg_deliver_all_timeout)
      ultimately show ?thesis by blast
    qed
  qed
qed

lemma run_consumed:
  assumes "timeout_time_start s = 0" and "runCalibration s ts = Some r"
  shows "\<exists>c. ts = c @ remaining r
           \<and> ((\<forall>t \<in> set c. no_escape (snd t)) \<longrightarrow> Timed_out \<notin> set (exits r))"
proof -
  obtain res s1 ts1 where i: "showSystemSetupMessageScreen s ts = Some (res, s1, ts1)"
    using assms(2) by (auto simp: runCalibration_def Let_def split: option.splits)
  have m: "message_loop (clearAllEventBuffers s) ts = Some (res, s1, ts1)"
    using i by (simp add: showSystemSetupMessageScreen_def)
  obtain c1 where c1: "ts = c1 @ ts1"
    and t1: "(\<forall>t \<in> set c1. no_escape (snd t)) \<longrightarrow> timeout_time_start s1 = 0"
    using message_loop_consumed [OF m] assms(1) by (auto simp: clearAllEventBuffers_def)
  obtain now cbs ts2 where ts1: "ts1 = (now, cbs) # ts2"
    using assms(2) i by (auto simp: runCalibration_def Let_def split: list.splits)
  let ?s2 = "cg_deliver_all cbs s1"
  let ?s3 = "cg_request (Autotune_gui 35) ?s2"
  let ?c2 = "c1 @ [(now, cbs)]"
  have c2: "ts = ?c2 @ ts2" using c1 ts1 by simp
  have t3: "(\<forall>t \<in> set ?c2. no_escape (snd t)) \<longrightarrow> timeout_time_start ?s3 = 0"
    using t1 by (simp add: cg_request_def cg_deliver_all_timeout)
  show ?thesis
  proof (cases res)
    case False
    then have "exits r = []" and "remaining r = ts2"
      using assms(2) i ts1 by (auto simp: runCalibration_def Let_def)
    then show ?thesis using c2 by auto
  next
    case True
    obtain e1 s4 ts3 where p: "poll autotune_ended ?s3 ts2 = Some (e1, s4, ts3)"
      using assms(2) i ts1 True
      by (auto simp: runCalibration_def Let_def split: option.splits)
    obtain c3 where c3: "ts2 = c3 @ ts3"
      and e1: "timeout_time_start ?s3 = 0 \<and> (\<forall>t \<in> set c3. no_escape (snd t)) \<longrightarrow> e1 = Ended"
      using poll_consumed [OF p] by blast
    have c23: "ts = (?c2 @ c3) @ ts3" using c2 c3 by simp
    have k1: "(\<forall>t \<in> set (?c2 @ c3). no_escape (snd t)) \<longrightarrow> e1 = Ended"
      using t3 e1 by auto
    show ?thesis
    proof (cases "autotune_successful s4")
      case False
      then have "r = finish [e1] ts3 s4"
        using assms(2) i ts1 True p by (simp add: runCalibration_def Let_def)
      then have "exits r = [e1]" and "remaining r = ts3" by (simp_all add: finish_def Let_def)
      then show ?thesis using c23 k1 by auto
    next
      case a4: True
      show ?thesis
      proof (cases "case calibration_type s of None \<Rightarrow> None | Some t \<Rightarrow> map_of calibration_methods t")
        case None
        then have "exits r = [e1]" and "remaining r = ts3"
          using assms(2) i ts1 True p a4 by (auto simp: runCalibration_def Let_def)
        then show ?thesis using c23 k1 by auto
      next
        case (Some n)
        let ?s6 = "cg_request (Start_calibration_gui n 35 (randomize s4)) (s4\<lparr>timeout_time_start := 0\<rparr>)"
        obtain e2 s7 ts4 where p2: "poll calibration_ended ?s6 ts3 = Some (e2, s7, ts4)"
          and r: "r = finish [e1, e2] ts4 s7"
          using assms(2) i ts1 True p a4 Some
          by (auto simp: runCalibration_def Let_def split: option.splits)
        have t6: "timeout_time_start ?s6 = 0" by (simp add: cg_request_def)
        obtain c4 where c4: "ts3 = c4 @ ts4"
          and e2: "(\<forall>t \<in> set c4. no_escape (snd t)) \<longrightarrow> e2 = Ended"
          using poll_consumed [OF p2] t6 by blast
        have x: "exits r = [e1, e2]" and y: "remaining r = ts4"
          using r by (simp_all add: finish_def Let_def)
        have "ts = (?c2 @ c3 @ c4) @ remaining r" using c23 c4 y by simp
        moreover have "(\<forall>t \<in> set (?c2 @ c3 @ c4). no_escape (snd t)) \<longrightarrow> Timed_out \<notin> set (exits r)"
          using k1 e2 x by auto
        ultimately show ?thesis by blast
      qed
    qed
  qed
qed

lemma timeout_needs_escape:
  assumes "timeout_time_start s = 0" and "runCalibration s ts = Some r"
    and "Timed_out \<in> set (exits r)"
  shows "\<exists>c. ts = c @ remaining r \<and> (\<exists>t \<in> set c. \<not> no_escape (snd t))"
  using run_consumed [OF assms(1,2)] assms(3) by blast

lemma poll_grace:
  assumes "timeout_time_start s \<noteq> 0" and "\<forall>t \<in> set q. no_escape (snd t)"
    and "now - timeout_time_start s > timeout"
  shows "\<exists>e s' ts'. poll ended s (q @ (now, cbs) # rest) = Some (e, s', ts')
           \<and> Suc (length rest) \<le> length ts'
           \<and> (e = Timed_out \<longrightarrow> \<not> ended s')"
  using assms
proof (induction q arbitrary: s)
  case Nil
  then show ?case by (simp add: should_stop_def)
next
  case (Cons t q)
  obtain n c where t: "t = (n, c)" by (cases t)
  show ?case
  proof (cases "ended s \<or> should_stop n s")
    case True
    then show ?thesis using t by auto
  next
    case False
    let ?s1 = "cg_deliver_all c s"
    have t1: "timeout_time_start ?s1 = timeout_time_start s"
      using Cons.prems(2) t by (simp add: cg_deliver_all_timeout)
    have "\<exists>e s' ts'. poll ended ?s1 (q @ (now, cbs) # rest) = Some (e, s', ts')
           \<and> Suc (length rest) \<le> length ts' \<and> (e = Timed_out \<longrightarrow> \<not> ended s')"
      using Cons.IH [of ?s1] Cons.prems t1 by simp
    then show ?thesis using False t by simp
  qed
qed

lemmas run_defs =
  runCalibration_def showSystemSetupMessageScreen_def new_calibration_graphics_def
  clearAllEventBuffers_def registerEventMonitors_def unregisterEventMonitors_def
  getNextMsg_def handleEvent_def handleEvents_def handleCalibrationGuiResponse_def
  cg_request_def cg_print2err_def should_stop_def timeout_def finish_def
  calibration_methods_def Let_def

text \<open>
  The timeout bounds the wait for the end of a phase. Space starts the autotune phase,
  escape is pressed at clock reading 2, and the \<open>PROCEDURE_ENDED\<close> event with code
  \<open>SUCCESS\<close> would be delivered in the sleep after the test at reading 8: that test finds
  the timeout expired, the loop is left without the event, and the run returns \<open>False\<close>.
\<close>

lemma success_after_timeout:
  "map_option returned
     (runCalibration (new_calibration_graphics (Some ''NINE_POINTS'') False True)
        [(0, [Host_event (Keyboard_press ''space'' 1)]),
         (1, []),
         (2, [Host_event (Keyboard_press ''escape'' 2)]),
         (8, [Stream_event (PROCEDURE_ENDED SUCCESS)])])
     = Some (Inr False)
   \<and> map_option exits
     (runCalibration (new_calibration_graphics (Some ''NINE_POINTS'') False True)
        [(0, [Host_event (Keyboard_press ''space'' 1)]),
         (1, []),
         (2, [Host_event (Keyboard_press ''escape'' 2)]),
         (8, [Stream_event (PROCEDURE_ENDED SUCCESS)])])
     = Some [Timed_out]
   \<and> \<not> in_time 0 [(2, [Host_event (Keyboard_press ''escape'' 2)]),
                    (8, [Stream_event (PROCEDURE_ENDED SUCCESS)])]"
  by (simp add: run_defs)




text \<open>
  C4 (as stated, at a concrete input). Space starts the autotune phase; escape is pressed
  at clock reading 10 and again at 14, and the device acknowledges nothing. At the tests
  of the loop at readings 15.5 and 18, more than 5 seconds after the first press, the loop
  goes on sleeping: the schedule ends with the loop still waiting. One more tick, at
  reading 19.5, has the loop time out. And since \<open>_should_stop()\<close> reads a stored reading
  of 0 as a timer that is not armed, an escape press handled at clock reading 0 arms
  nothing: the loop is still waiting at reading 100.
\<close>

theorem second_escape_restarts_grace:
  "runCalibration (new_calibration_graphics (Some ''NINE_POINTS'') False True)
     [(0, [Host_event (Keyboard_press ''space'' 0)]), (1, []),
      (10, [Host_event (Keyboard_press ''escape'' 10)]),
      (14, [Host_event (Keyboard_press ''escape'' 14)]),
      (31 / 2, []), (18, [])]
     = None
   \<and> map_option exits
       (runCalibration (new_calibration_graphics (Some ''NINE_POINTS'') False True)
          [(0, [Host_event (Keyboard_press ''space'' 0)]), (1, []),
           (10, [Host_event (Keyboard_press ''escape'' 10)]),
           (14, [Host_event (Keyboard_press ''escape'' 14)]),
           (31 / 2, []), (18, []), (39 / 2, [])])
       = Some [Timed_out]
   \<and> runCalibration (new_calibration_graphics (Some ''NINE_POINTS'') False True)
       [(0, [Host_event (Keyboard_press ''space'' 0)]), (0, []),
        (0, [Host_event (Keyboard_press ''escape'' 0)]), (6, []), (100, [])]
       = None"
  by (simp add: run_defs)

text \<open>
  C4 (amended). In every run of \<open>runCalibration\<close> on a new object, a polling loop is left
  by timeout only if an escape press was delivered earlier in that run, in one of the
  ticks the run has slept through; while no escape press has been handled,
  \<open>_should_stop()\<close> is false at every clock reading. An escape press stores
  the clock reading of that press, so each press restarts the grace period. Once the
  timer holds a nonzero reading, the polling loop on either flag, with no further escape
  press, is left no later than its first test at which more than \<open>timeout\<close> (5 seconds)
  have passed since that reading, whether or not the phase was acknowledged; when it is
  left by timeout the flag is still false.
\<close>

theorem timeout_only_after_escape:
  "(runCalibration (new_calibration_graphics ctype rnd kb) ts = Some r \<and> Timed_out \<in> set (exits r)
      \<longrightarrow> (\<exists>c. ts = c @ remaining r \<and> (\<exists>t \<in> set c. \<not> no_escape (snd t))))
   \<and> (timeout_time_start s = 0 \<and> no_escape cbs \<longrightarrow> \<not> should_stop now (cg_deliver_all cbs s))
   \<and> timeout_time_start (handleEvent (Keyboard_press ''escape'' perf_counter) s) = perf_counter
   \<and> (timeout_time_start s \<noteq> 0 \<and> (\<forall>t \<in> set q. no_escape (snd t))
        \<and> now - timeout_time_start s > timeout \<longrightarrow>
      (\<exists>e s' ts'. poll ended s (q @ (now, cbs) # rest) = Some (e, s', ts')
          \<and> Suc (length rest) \<le> length ts'
          \<and> (e = Timed_out \<longrightarrow> \<not> ended s')))"
proof -
  let ?s = "new_calibration_graphics ctype rnd kb"
  have t0: "timeout_time_start ?s = 0"
    using new_calibration_graphics_fresh [of ctype rnd kb] by (simp add: fresh_def)
  have p1: "runCalibration ?s ts = Some r \<and> Timed_out \<in> set (exits r)
      \<longrightarrow> (\<exists>c. ts = c @ remaining r \<and> (\<exists>t \<in> set c. \<not> no_escape (snd t)))"
    using timeout_needs_escape [OF t0, of ts r] by blast
  have p2: "timeout_time_start s = 0 \<and> no_escape cbs \<longrightarrow> \<not> should_stop now (cg_deliver_all cbs s)"
    by (simp add: should_stop_def cg_deliver_all_timeout)
  have p3: "timeout_time_start (handleEvent (Keyboard_press ''escape'' perf_counter) s) = perf_counter"
    by (simp add: handleEvent_def clearAllEventBuffers_def)
  have p4: "timeout_time_start s \<noteq> 0 \<and> (\<forall>t \<in> set q. no_escape (snd t))
        \<and> now - timeout_time_start s > timeout \<longrightarrow>
      (\<exists>e s' ts'. poll ended s (q @ (now, cbs) # rest) = Some (e, s', ts')
          \<and> Suc (length rest) \<le> length ts'
          \<and> (e = Timed_out \<longrightarrow> \<not> ended s'))"
    using poll_grace [of s q now ended cbs rest] by blast
  show ?thesis
    by (rule conjI [OF p1 conjI [OF p2 conjI [OF p3 p4]]])
qed

theorem timeout_only_after_escape_witness:
  "(\<exists>r. runCalibration (new_calibration_graphics (Some ''NINE_POINTS'') False True)
          [(0, [Host_event (Keyboard_press ''space'' 0)]), (1, []),
           (10, [Host_event (Keyboard_press ''escape'' 10)]), (12, []), (31 / 2, [])] = Some r
        \<and> Timed_out \<in> set (exits r)
        \<and> (\<exists>c. [(0, [Host_event (Keyboard_press ''space'' 0)]), (1, []),
                 (10, [Host_event (Keyboard_press ''escape'' 10)]), (12, []), (31 / 2, [])]
                  = c @ remaining r
               \<and> (\<exists>t \<in> set c. \<not> no_escape (snd t))))
   \<and> timeout_time_start (new_calibration_graphics None False True) = 0
   \<and> no_escape [Stream_event (BLINK 1), Host_event (Keyboard_press ''space'' 3)]
   \<and> \<not> should_stop 100
         (cg_deliver_all [Stream_event (BLINK 1), Host_event (Keyboard_press ''space'' 3)]
            (new_calibration_graphics None False True))
   \<and> timeout_time_start
        (handleEvent (Keyboard_press ''escape'' 10) (new_calibration_graphics None False True)) = 10
   \<and> (\<exists>e s' ts'.
         poll autotune_ended
           (handleEvent (Keyboard_press ''escape'' 10) (new_calibration_graphics None False True))
           ([(11, [Stream_event (BLINK 1)])] @ (16, []) # [(17, [])]) = Some (e, s', ts')
         \<and> Suc (length [(17 :: real, [] :: cg_callback list)]) \<le> length ts')"
proof -
  let ?s = "new_calibration_graphics (Some ''NINE_POINTS'') False True"
  let ?n = "new_calibration_graphics None False True"
  let ?ts = "[(0::real, [Host_event (Keyboard_press ''space'' 0)]), (1, []),
           (10, [Host_event (Keyboard_press ''escape'' 10)]), (12, []), (31 / 2, [])]"
  let ?cbs = "[Stream_event (BLINK 1), Host_event (Keyboard_press ''space'' 3)]"
  let ?a = "handleEvent (Keyboard_press ''escape'' 10) ?n"
  obtain r where r: "runCalibration ?s ?ts = Some r" and e: "exits r = [Timed_out]"
    by (simp add: run_defs)
  have c1: "\<exists>c. ?ts = c @ remaining r \<and> (\<exists>t \<in> set c. \<not> no_escape (snd t))"
    using timeout_only_after_escape
      [where ctype = "Some ''NINE_POINTS''" and rnd = False and kb = True and ts = ?ts and r = r]
      r e by simp
  have h2: "timeout_time_start ?n = 0" by (simp add: run_defs)
  have h3: "no_escape ?cbs" by (simp add: no_escape_def)
  have c2: "\<not> should_stop 100 (cg_deliver_all ?cbs ?n)"
    using timeout_only_after_escape [where s = ?n and cbs = ?cbs and now = 100] h2 h3 by blast
  have c3: "timeout_time_start ?a = 10"
    using timeout_only_after_escape [where s = ?n and perf_counter = 10] by blast
  have h4: "timeout_time_start ?a \<noteq> 0 \<and> (\<forall>t \<in> set [(11::real, [Stream_event (BLINK 1)])]. no_escape (snd t))
        \<and> 16 - timeout_time_start ?a > timeout"
    using c3 by (simp add: no_escape_def timeout_def)
  have c4: "\<exists>e s' ts'. poll autotune_ended ?a ([(11, [Stream_event (BLINK 1)])] @ (16, []) # [(17, [])])
              = Some (e, s', ts')
         \<and> Suc (length [(17 :: real, [] :: cg_callback list)]) \<le> length ts'"
    using timeout_only_after_escape
      [where s = ?a and q = "[(11, [Stream_event (BLINK 1)])]" and now = 16 and cbs = "[]"
         and rest = "[(17, [])]" and ended = autotune_ended] h4
    by blast
  have c0: "\<exists>r. runCalibration ?s ?ts = Some r \<and> Timed_out \<in> set (exits r)
        \<and> (\<exists>c. ?ts = c @ remaining r \<and> (\<exists>t \<in> set c. \<not> no_escape (snd t)))"
    using r e c1 by auto
  show ?thesis
    using c0 h2 h3 c2 c3 c4 by blast
qed

end
